theory Spec2Isabelle
  imports Main "HOL-Library.Char_ord" "HOL-Library.List_Lexorder" "HOL-Library.Multiset"
begin

section \<open>JavaScript values and the object store\<close>

text \<open>
  \<^verbatim>\<open>src/fields/Field.js\<close> is a single class, \<^verbatim>\<open>Field\<close>. Its methods work on untyped
  JavaScript values, compare composite values by reference, write into objects the caller
  owns and freeze objects. The model therefore has primitive values, references into an
  object store, and a store of objects (arrays and key-value objects). An object's
  properties are ordinary data properties, each writable until the object is frozen
  (\<open>frozen\<close>, set by \<^verbatim>\<open>Object.freeze\<close>); new properties can be added while it is \<open>extensible\<close>
  (cleared by \<^verbatim>\<open>Object.preventExtensions\<close>, \<^verbatim>\<open>Object.seal\<close> and \<^verbatim>\<open>Object.freeze\<close>). Read-only and
  accessor properties, proxies and functions are outside the model.

  Numbers: \<open>NaN\<close>, the two infinities, the integers up to \<open>2\<^sup>5\<^sup>3\<close> in magnitude (\<open>Fin i\<close>;
  each of them is a number of the language) and every other finite number (\<open>Other k\<close>: one
  that is not an integer or is larger, named by an index). \<open>Fin i\<close> with a larger \<open>i\<close> stands
  for no number (\<open>properNum\<close>). \<^verbatim>\<open>Field.js\<close> does no arithmetic; it
  only tests numbers (\<^verbatim>\<open>=== 0\<close>, \<^verbatim>\<open>isNaN\<close>, truthiness) and converts them from and to text, and
  under these operations negative zero behaves as \<open>0\<close> and is not told apart. Symbols and
  big integers are outside the modelled values. Objects are data: their property names are names (not array indices, and
  not the names of the methods the conversions call, such as \<^verbatim>\<open>toString\<close> or \<^verbatim>\<open>toJSON\<close>), and
  strings are sequences of single-byte characters.
\<close>

datatype jsnum = NaN | PosInf | NegInf | Fin int | Other nat


type_synonym addr = nat

datatype jsval = Undefined | Null | Bool bool | Num jsnum | Str string | Ref addr

text \<open>
  The class of a stored object. \<open>Array\<close> answers \<^verbatim>\<open>Array.isArray\<close>; \<open>Object\<close> is a plain
  key-value object; \<open>Record s\<close> is an instance of the external \<^verbatim>\<open>Record\<close> class
  (\<^verbatim>\<open>constructor.name === 'Record'\<close>) and \<open>FieldInstance s\<close> an instance of \<^verbatim>\<open>Field\<close> met as a
  value; both carry the text \<open>s\<close> that their own \<^verbatim>\<open>toString()\<close> renders when it returns.
\<close>

datatype jsclass = Array | Object | Record string | FieldInstance string

record jsobj =
  cls :: jsclass
  elems :: "jsval list"
  props :: "(string \<times> jsval) list"
  frozen :: bool
  extensible :: bool

type_synonym heap = "jsobj list"

definition emptyObject :: jsobj where
  "emptyObject = \<lparr>cls = Object, elems = [], props = [], frozen = False, extensible = True\<rparr>"

definition newArray :: "jsval list \<Rightarrow> jsobj" where
  "newArray xs = \<lparr>cls = Array, elems = xs, props = [], frozen = False, extensible = True\<rparr>"

text \<open>Allocation appends to the store; the new object's address is the old length.\<close>

definition alloc :: "heap \<Rightarrow> jsobj \<Rightarrow> jsval \<times> heap" where
  "alloc h ob = (Ref (length h), h @ [ob])"

datatype jstype = TyUndefined | TyObject | TyBoolean | TyNumber | TyString

fun typeof :: "jsval \<Rightarrow> jstype" where
  "typeof Undefined = TyUndefined"
| "typeof Null = TyObject"
| "typeof (Bool b) = TyBoolean"
| "typeof (Num n) = TyNumber"
| "typeof (Str s) = TyString"
| "typeof (Ref a) = TyObject"

fun isNaN :: "jsval \<Rightarrow> bool" where
  "isNaN (Num NaN) = True"
| "isNaN v = False"

text \<open>Truthiness (\<^verbatim>\<open>!!v\<close>, and the operand test of \<^verbatim>\<open>||\<close> and \<^verbatim>\<open>?:\<close>).\<close>

fun truthy :: "jsval \<Rightarrow> bool" where
  "truthy Undefined = False"
| "truthy Null = False"
| "truthy (Bool b) = b"
| "truthy (Num n) = (n \<noteq> NaN \<and> n \<noteq> Fin 0)"
| "truthy (Str s) = (s \<noteq> [])"
| "truthy (Ref a) = True"

text \<open>\<^verbatim>\<open>a === b\<close>: primitives by value (\<^verbatim>\<open>NaN\<close> equals nothing), objects by reference.\<close>

definition strictEq :: "jsval \<Rightarrow> jsval \<Rightarrow> bool" where
  "strictEq a b = (a = b \<and> \<not> isNaN a)"

definition isArray :: "heap \<Rightarrow> jsval \<Rightarrow> bool" where
  "isArray h v = (case v of Ref a \<Rightarrow> a < length h \<and> cls (h ! a) = Array | _ \<Rightarrow> False)"

text \<open>
  \<^verbatim>\<open>v[key]\<close> for a named key, read: an own property of the object, else \<^verbatim>\<open>undefined\<close>
  (also for a primitive other than \<^verbatim>\<open>null\<close> and \<^verbatim>\<open>undefined\<close>, whose wrapper has no such
  property; reads of \<^verbatim>\<open>null\<close> and \<^verbatim>\<open>undefined\<close> raise and are handled where they occur).
\<close>

definition getProp :: "heap \<Rightarrow> jsval \<Rightarrow> string \<Rightarrow> jsval" where
  "getProp h v key =
     (case v of
        Ref a \<Rightarrow> (if a < length h
                  then (case map_of (props (h ! a)) key of Some x \<Rightarrow> x | None \<Rightarrow> Undefined)
                  else Undefined)
      | _ \<Rightarrow> Undefined)"

text \<open>An association list with one key rewritten in place, or appended when it is new.\<close>

fun putKey :: "string \<Rightarrow> jsval \<Rightarrow> (string \<times> jsval) list \<Rightarrow> (string \<times> jsval) list" where
  "putKey k v [] = [(k, v)]"
| "putKey k v ((k', v') # ps) = (if k = k' then (k, v) # ps else (k', v') # putKey k v ps)"

section \<open>Snapshots of stored values and the text conversions\<close>

text \<open>
  The built-in conversions (\<^verbatim>\<open>String(v)\<close>, \<^verbatim>\<open>JSON.stringify(v)\<close>) walk the object graph below
  a value. \<open>snapshot\<close> unfolds that graph into a tree; a reference to an object that is
  already on the path from the root (a cycle) becomes \<open>TCycle\<close>, which is also what the
  engines' own cycle checks look for. A dangling address cannot arise from JavaScript and
  is given \<open>TCycle\<close> as well.
\<close>

datatype tree =
    TUndef | TNull | TBool bool | TNum jsnum | TStr string
  | TNode jsclass "tree list" "(string \<times> tree) list"
  | TCycle

function snapshot :: "heap \<Rightarrow> addr list \<Rightarrow> jsval \<Rightarrow> tree" where
  "snapshot h st Undefined = TUndef"
| "snapshot h st Null = TNull"
| "snapshot h st (Bool b) = TBool b"
| "snapshot h st (Num n) = TNum n"
| "snapshot h st (Str s) = TStr s"
| "snapshot h st (Ref a) =
     (if a \<in> set st \<or> length h \<le> a then TCycle
      else TNode (cls (h ! a))
             (map (snapshot h (a # st)) (elems (h ! a)))
             (map (\<lambda>kv. (fst kv, snapshot h (a # st) (snd kv))) (props (h ! a))))"
  by pat_completeness auto
termination
proof (relation "measure (\<lambda>(h, st, v). card ({..<length h} - set st))")
  show "wf (measure (\<lambda>(h, st, v). card ({..<length h} - set st)))"
    by simp
next
  fix h :: heap and st :: "addr list" and a :: addr and x :: jsval
  assume fresh: "\<not> (a \<in> set st \<or> length h \<le> a)"
  have mem: "a \<in> {..<length h} - set st" using fresh by simp
  have fin: "finite ({..<length h} - set st)" by simp
  have eq: "{..<length h} - set (a # st) = ({..<length h} - set st) - {a}" by auto
  have "card ({..<length h} - set (a # st)) < card ({..<length h} - set st)"
    unfolding eq by (rule card_Diff1_less [OF fin mem])
  then show "((h, a # st, x), (h, st, Ref a)) \<in> measure (\<lambda>(h, st, v). card ({..<length h} - set st))"
    by simp
next
  fix h :: heap and st :: "addr list" and a :: addr and x :: "string \<times> jsval"
  assume fresh: "\<not> (a \<in> set st \<or> length h \<le> a)"
  have mem: "a \<in> {..<length h} - set st" using fresh by simp
  have fin: "finite ({..<length h} - set st)" by simp
  have eq: "{..<length h} - set (a # st) = ({..<length h} - set st) - {a}" by auto
  have "card ({..<length h} - set (a # st)) < card ({..<length h} - set st)"
    unfolding eq by (rule card_Diff1_less [OF fin mem])
  then show "((h, a # st, snd x), (h, st, Ref a)) \<in> measure (\<lambda>(h, st, v). card ({..<length h} - set st))"
    by simp
qed

text \<open>
  Decimal digits of a natural number, and \<^verbatim>\<open>String(n)\<close> for a number. An integer up to
  \<open>2\<^sup>5\<^sup>3\<close> in magnitude is written in plain digits. The text of any other finite number
  (fraction digits, exponent form) is not computed: \<open>otherText\<close> stands for it and nothing is
  known of it.
\<close>

fun digits :: "nat \<Rightarrow> string" where
  "digits n = (if n < 10 then [''0123456789'' ! n]
               else digits (n div 10) @ [''0123456789'' ! (n mod 10)])"

declare digits.simps [simp del]

definition otherText :: "jsnum \<Rightarrow> string" where
  "otherText = undefined"

fun numStr :: "jsnum \<Rightarrow> string" where
  "numStr NaN = ''NaN''"
| "numStr PosInf = ''Infinity''"
| "numStr NegInf = ''-Infinity''"
| "numStr (Fin i) =
     (if \<bar>i\<bar> \<le> 9007199254740992
      then (if i < 0 then ''-'' @ digits (nat (- i)) else digits (nat i))
      else otherText (Fin i))"
| "numStr (Other k) = otherText (Other k)"

fun joinWith :: "string \<Rightarrow> string list \<Rightarrow> string" where
  "joinWith sep [] = []"
| "joinWith sep [s] = s"
| "joinWith sep (s # t # ss) = s @ sep @ joinWith sep (t # ss)"

text \<open>
  \<^verbatim>\<open>String(v)\<close> on the unfolded value. An array is its elements joined by commas, with
  \<^verbatim>\<open>undefined\<close> and \<^verbatim>\<open>null\<close> elements (and an array met again inside itself) rendered empty;
  a plain object is \<^verbatim>\<open>[object Object]\<close>.
\<close>

fun toStringT :: "tree \<Rightarrow> string" where
  "toStringT TUndef = ''undefined''"
| "toStringT TNull = ''null''"
| "toStringT (TBool b) = (if b then ''true'' else ''false'')"
| "toStringT (TNum n) = numStr n"
| "toStringT (TStr s) = s"
| "toStringT TCycle = []"
| "toStringT (TNode c es ps) =
     (case c of
        Array \<Rightarrow> joinWith '','' (map (\<lambda>e. if e = TUndef \<or> e = TNull then [] else toStringT e) es)
      | Object \<Rightarrow> ''[object Object]''
      | Record s \<Rightarrow> s
      | FieldInstance s \<Rightarrow> s)"

definition toString :: "heap \<Rightarrow> jsval \<Rightarrow> string" where
  "toString h v = toStringT (snapshot h [] v)"

text \<open>
  Errors: \<open>Error name message\<close> is an \<^verbatim>\<open>Error\<close> object built by \<^verbatim>\<open>Field.js\<close>; \<open>TypeError\<close> and
  \<open>RangeError\<close> are raised by the language itself.
\<close>

datatype jserror = Error string string | TypeError | RangeError

subsection \<open>Serialisation\<close>

text \<open>
  \<^verbatim>\<open>JSON.stringify\<close> quotes a string and escapes the quote, the backslash and the control
  characters.
\<close>

definition hex4 :: "nat \<Rightarrow> string" where
  "hex4 n = ''00'' @ [''0123456789abcdef'' ! (n div 16), ''0123456789abcdef'' ! (n mod 16)]"

definition escapeChar :: "char \<Rightarrow> string" where
  "escapeChar c =
     (if c = CHR 0x22 then [CHR 0x5C, CHR 0x22]
      else if c = CHR 0x5C then [CHR 0x5C, CHR 0x5C]
      else if c = CHR 0x08 then [CHR 0x5C, CHR ''b'']
      else if c = CHR 0x0C then [CHR 0x5C, CHR ''f'']
      else if c = CHR 0x0A then [CHR 0x5C, CHR ''n'']
      else if c = CHR 0x0D then [CHR 0x5C, CHR ''r'']
      else if c = CHR 0x09 then [CHR 0x5C, CHR ''t'']
      else if (of_char c :: nat) < 32 then [CHR 0x5C, CHR ''u''] @ hex4 (of_char c)
      else [c])"

definition jsonQuote :: "string \<Rightarrow> string" where
  "jsonQuote s = [CHR 0x22] @ concat (map escapeChar s) @ [CHR 0x22]"

text \<open>
  The JSON text of an unfolded value, below the top level; \<open>None\<close> stands for the
  \<^verbatim>\<open>TypeError\<close> raised on a cyclic structure. An array gives its elements (\<^verbatim>\<open>undefined\<close>, \<^verbatim>\<open>NaN\<close>
  and the infinities as \<^verbatim>\<open>null\<close>) and ignores its named properties; any other object gives its
  own properties, those holding \<^verbatim>\<open>undefined\<close> left out.
\<close>

fun jsonT :: "tree \<Rightarrow> string option" where
  "jsonT TUndef = Some ''null''"
| "jsonT TNull = Some ''null''"
| "jsonT (TBool b) = Some (if b then ''true'' else ''false'')"
| "jsonT (TNum n) =
     Some (if n = NaN \<or> n = PosInf \<or> n = NegInf then ''null'' else numStr n)"
| "jsonT (TStr s) = Some (jsonQuote s)"
| "jsonT TCycle = None"
| "jsonT (TNode c es ps) =
     (if c = Array
      then map_option (\<lambda>ss. ''['' @ joinWith '','' ss @ '']'') (those (map jsonT es))
      else map_option (\<lambda>ss. ''{'' @ joinWith '','' ss @ ''}'')
             (those (map (\<lambda>kv. map_option (\<lambda>t. jsonQuote (fst kv) @ '':'' @ t) (jsonT (snd kv)))
                         (filter (\<lambda>kv. snd kv \<noteq> TUndef) ps))))"

text \<open>\<^verbatim>\<open>JSON.stringify(v)\<close>: \<^verbatim>\<open>undefined\<close> for \<^verbatim>\<open>undefined\<close>, else the text, else \<^verbatim>\<open>TypeError\<close>.\<close>

definition JSON_stringify :: "heap \<Rightarrow> jsval \<Rightarrow> jserror + jsval" where
  "JSON_stringify h v =
     (if v = Undefined then Inr Undefined
      else (case jsonT (snapshot h [] v) of None \<Rightarrow> Inl TypeError | Some s \<Rightarrow> Inr (Str s)))"

text \<open>\<^verbatim>\<open>_isRecord(object)\<close> (lines 136-138) and \<^verbatim>\<open>object instanceof Field\<close>.\<close>

definition isRecord :: "heap \<Rightarrow> jsval \<Rightarrow> bool" where
  "isRecord h v =
     (case v of
        Ref a \<Rightarrow> a < length h \<and> (case cls (h ! a) of Record s \<Rightarrow> True | _ \<Rightarrow> False)
      | _ \<Rightarrow> False)"

definition instanceofField :: "heap \<Rightarrow> jsval \<Rightarrow> bool" where
  "instanceofField h v =
     (case v of
        Ref a \<Rightarrow> a < length h \<and> (case cls (h ! a) of FieldInstance s \<Rightarrow> True | _ \<Rightarrow> False)
      | _ \<Rightarrow> False)"

section \<open>The Field object\<close>

text \<open>
  A \<^verbatim>\<open>Field\<close> instance is the record of its own slots: \<^verbatim>\<open>_name\<close>, \<^verbatim>\<open>_config\<close>, \<^verbatim>\<open>_type\<close>,
  \<^verbatim>\<open>_value\<close> and \<^verbatim>\<open>_originalValue_\<close>. A slot never assigned reads \<^verbatim>\<open>undefined\<close>. Methods take
  the store and the instance and return what they change. The model is of the base class,
  whose \<^verbatim>\<open>constructor.name\<close> is \<^verbatim>\<open>Field\<close>.
\<close>

record field =
  name_slot :: jsval
  config_slot :: jsval
  type_slot :: jsval
  value_slot :: jsval
  originalValue_slot :: jsval

definition blankField :: field where
  "blankField = \<lparr>name_slot = Undefined, config_slot = Undefined, type_slot = Undefined,
                  value_slot = Undefined, originalValue_slot = Undefined\<rparr>"

text \<open>
  What a call can do besides returning: raise an error, or end the process with an exit
  status. Each outcome carries the lines written to \<^verbatim>\<open>console.error\<close> on the way:
  \<open>ErrorStack e\<close> for \<^verbatim>\<open>error.stack\<close> and \<open>ExitNotice\<close> for the fixed notice printed before
  \<^verbatim>\<open>process.exit(2)\<close>.
\<close>

datatype logline = ErrorStack jserror | ExitNotice

datatype 'a outcome = Return "logline list" 'a | Throw "logline list" jserror | Exit "logline list" nat

fun addLog :: "logline list \<Rightarrow> 'a outcome \<Rightarrow> 'a outcome" where
  "addLog l (Return l' x) = Return (l @ l') x"
| "addLog l (Throw l' e) = Throw (l @ l') e"
| "addLog l (Exit l' n) = Exit (l @ l') n"

fun andThen :: "'a outcome \<Rightarrow> ('a \<Rightarrow> 'b outcome) \<Rightarrow> 'b outcome" where
  "andThen (Return l x) k = addLog l (k x)"
| "andThen (Throw l e) k = Throw l e"
| "andThen (Exit l n) k = Exit l n"

fun returning :: "'b \<Rightarrow> 'a outcome \<Rightarrow> 'b outcome" where
  "returning y (Return l x) = Return l y"
| "returning y (Throw l e) = Throw l e"
| "returning y (Exit l n) = Exit l n"

subsection \<open>Getters (lines 26-28 and 56-74)\<close>

definition get_originalValue :: "field \<Rightarrow> jsval" where
  "get_originalValue f = originalValue_slot f"

text \<open>\<^verbatim>\<open>get config() { return this._config || {}; }\<close>: a fresh empty object when the slot is falsy.\<close>

definition get_config :: "heap \<Rightarrow> field \<Rightarrow> jsval \<times> heap" where
  "get_config h f = (if truthy (config_slot f) then (config_slot f, h) else alloc h emptyObject)"

text \<open>\<^verbatim>\<open>this.config.key\<close>, read only; the empty object of the fallback is dropped again.\<close>

definition configProp :: "heap \<Rightarrow> field \<Rightarrow> string \<Rightarrow> jsval" where
  "configProp h f key = (case get_config h f of (c, h') \<Rightarrow> getProp h' c key)"

definition get_name :: "field \<Rightarrow> jsval" where
  "get_name f = name_slot f"

definition get_record :: "heap \<Rightarrow> field \<Rightarrow> jsval" where
  "get_record h f = configProp h f ''__record__''"

definition get_type :: "field \<Rightarrow> jsval" where
  "get_type f = type_slot f"

text \<open>
  \<^verbatim>\<open>return this._value === 0 || this._value === false ? this._value : this._value || null;\<close>
\<close>

definition get_value :: "field \<Rightarrow> jsval" where
  "get_value f =
     (if strictEq (value_slot f) (Num (Fin 0)) \<or> strictEq (value_slot f) (Bool False)
      then value_slot f
      else if truthy (value_slot f) then value_slot f else Null)"


subsection \<open>The error channel (lines 166-208)\<close>

text \<open>
  \<^verbatim>\<open>_error(message, received, forceThrow = false)\<close>. The error is named \<^verbatim>\<open>UninitializedFieldError\<close>
  while \<^verbatim>\<open>type\<close> is unset and \<^verbatim>\<open>FieldError\<close> (the class name) afterwards. Lines 168-193 append
  a text block to the message. The model keeps the caller's message only, and of the block
  the steps that can end the call with a \<^verbatim>\<open>TypeError\<close>:
  \<^item> line 173 reads \<^verbatim>\<open>received.constructor.name\<close>, which raises when the object has an own
    \<^verbatim>\<open>constructor\<close> holding \<^verbatim>\<open>undefined\<close> or \<^verbatim>\<open>null\<close>;
  \<^item> lines 175-180 render \<^verbatim>\<open>received\<close>: a Field through \<^verbatim>\<open>toString(false)\<close>, which raises at line
    132 when its value reads \<^verbatim>\<open>null\<close>; any other value but a Record through
    \<^verbatim>\<open>JSON.stringify\<close>, which raises on a cycle;
  \<^item> lines 184-187 put base, table, record and field name into the text, and the text of a
    Field (line 132 again) raises when its value reads \<^verbatim>\<open>null\<close>.
  Modelled from the spec: \<^verbatim>\<open>Record.stringify\<close> (line 176) belongs to the Record class, which is
  not in \<^verbatim>\<open>Field.js\<close>; the spec only says that a Record is rendered specially, and the call is
  taken to return.
\<close>

text \<open>Line 73 applied to the \<^verbatim>\<open>_value\<close> of a Field that is met as a stored value.\<close>

definition storedFieldValue :: "heap \<Rightarrow> jsval \<Rightarrow> jsval" where
  "storedFieldValue h r =
     (let v = getProp h r ''_value'' in
      if strictEq v (Num (Fin 0)) \<or> strictEq v (Bool False) then v
      else if truthy v then v else Null)"

definition textRaises :: "heap \<Rightarrow> jsval \<Rightarrow> bool" where
  "textRaises h v = (instanceofField h v \<and> storedFieldValue h v = Null)"

definition constructorRaises :: "heap \<Rightarrow> jsval \<Rightarrow> bool" where
  "constructorRaises h received =
     (case received of
        Ref a \<Rightarrow> a < length h \<and>
                 (case map_of (props (h ! a)) ''constructor'' of
                    Some x \<Rightarrow> x = Undefined \<or> x = Null
                  | None \<Rightarrow> False)
      | _ \<Rightarrow> False)"

definition renderRaises :: "heap \<Rightarrow> jsval \<Rightarrow> bool" where
  "renderRaises h received =
     (if isRecord h received then False
      else if instanceofField h received then textRaises h received
      else JSON_stringify h received = Inl TypeError)"

text \<open>Lines 168-170 and 187: base, table, record and field name, as the text block shows them.\<close>

definition reportContext :: "heap \<Rightarrow> field \<Rightarrow> jsval list" where
  "reportContext h f =
     (let r = get_record h f;
          t = (if truthy r then getProp h r ''table'' else Undefined)
      in [if truthy r then (if truthy t then getProp h t ''base'' else Undefined) else Undefined,
          if truthy r then (if truthy t then getProp h t ''name'' else Undefined) else Undefined,
          if truthy r then getProp h r ''id'' else Undefined,
          get_name f])"

definition reportRaises :: "heap \<Rightarrow> field \<Rightarrow> jsval \<Rightarrow> bool" where
  "reportRaises h f received =
     (constructorRaises h received \<or> renderRaises h received
      \<or> list_ex (textRaises h) (reportContext h f))"

definition Field_error :: "heap \<Rightarrow> field \<Rightarrow> string \<Rightarrow> jsval \<Rightarrow> jsval \<Rightarrow> unit outcome" where
  "Field_error h f message received forceThrow =
     (let kind = (if get_type f = Undefined then ''UninitializedField'' else ''Field'');
          err = Error (kind @ ''Error'') message
      in if reportRaises h f received then Throw [] TypeError
         else if get_type f \<noteq> Undefined \<and>
            (strictEq forceThrow (Bool True) \<or>
             \<not> strictEq (configProp h f ''__ignoreFieldErrors__'') (Bool True))
         then Throw [] err
         else if get_type f = Undefined
              then Exit [ErrorStack err, ExitNotice] 2
              else Return [ErrorStack err] ())"

subsection \<open>Setters (lines 76-119)\<close>

definition set_config :: "heap \<Rightarrow> field \<Rightarrow> jsval \<Rightarrow> field outcome" where
  "set_config h f config =
     (if config_slot f \<noteq> Undefined
      then returning f (Field_error h f ''config can not be changed!'' Undefined (Bool False))
      else if typeof config \<noteq> TyObject \<or> isArray h config
      then returning f (Field_error h f ''config should be key-value Object.'' config (Bool False))
      else Return [] (f\<lparr>config_slot := config\<rparr>))"

definition set_type :: "heap \<Rightarrow> field \<Rightarrow> jsval \<Rightarrow> field outcome" where
  "set_type h f t =
     (if get_type f \<noteq> Undefined
      then returning f (Field_error h f ''type can not be changed!'' t (Bool False))
      else Return [] (f\<lparr>type_slot := t\<rparr>))"

definition set_value :: "field \<Rightarrow> jsval \<Rightarrow> field" where
  "set_value f v = f\<lparr>value_slot := v\<rparr>"

definition set_originalValue :: "field \<Rightarrow> jsval \<Rightarrow> field" where
  "set_originalValue f v = f\<lparr>originalValue_slot := v\<rparr>"

text \<open>
  \<^verbatim>\<open>_checkName\<close> returns \<^verbatim>\<open>true\<close>, or what \<^verbatim>\<open>_error\<close> returns (\<^verbatim>\<open>undefined\<close>) when that call comes
  back at all.
\<close>

definition checkName :: "heap \<Rightarrow> field \<Rightarrow> jsval \<Rightarrow> jsval outcome" where
  "checkName h f name =
     (if typeof name \<noteq> TyString \<or> (case name of Str s \<Rightarrow> length s < 1 | _ \<Rightarrow> False)
      then returning Undefined
             (Field_error h f ''name must be a string with a minimum length of 1 character.'' name (Bool False))
      else Return [] (Bool True))"

definition set_name :: "heap \<Rightarrow> field \<Rightarrow> jsval \<Rightarrow> field outcome" where
  "set_name h f name =
     andThen (checkName h f name) (\<lambda>ok. Return [] (if truthy ok then f\<lparr>name_slot := name\<rparr> else f))"

subsection \<open>Number conversion\<close>

text \<open>
  \<^verbatim>\<open>Number(s)\<close> for a string. The model computes it for the texts it can be sure of: after
  dropping surrounding ASCII white space, the empty text is \<^verbatim>\<open>0\<close>, and an optional sign before
  \<^verbatim>\<open>Infinity\<close> or before decimal digits of a value up to \<open>2\<^sup>5\<^sup>3\<close> gives that number. For every
  other text (a fraction, an exponent, a radix prefix, more digits, other white space, or no
  number at all) the result is \<open>unmodelledNumber s\<close>, of which nothing is known.
\<close>

definition unmodelledNumber :: "string \<Rightarrow> jsnum" where
  "unmodelledNumber = undefined"

definition isSpace :: "char \<Rightarrow> bool" where
  "isSpace c = (c \<in> set [CHR '' '', CHR 0x09, CHR 0x0A, CHR 0x0B, CHR 0x0C, CHR 0x0D])"

definition trim :: "string \<Rightarrow> string" where
  "trim s = rev (dropWhile isSpace (rev (dropWhile isSpace s)))"

definition isDigit :: "char \<Rightarrow> bool" where
  "isDigit c = (c \<in> set ''0123456789'')"

definition digitVal :: "char \<Rightarrow> nat" where
  "digitVal c = of_char c - 48"

definition natOfDigits :: "string \<Rightarrow> nat" where
  "natOfDigits s = foldl (\<lambda>n c. 10 * n + digitVal c) 0 s"

definition unsignedToNumber :: "string \<Rightarrow> jsnum option" where
  "unsignedToNumber s =
     (if s = ''Infinity'' then Some PosInf
      else if s \<noteq> [] \<and> list_all isDigit s \<and> natOfDigits s \<le> 9007199254740992
      then Some (Fin (int (natOfDigits s)))
      else None)"

fun negate :: "jsnum \<Rightarrow> jsnum" where
  "negate PosInf = NegInf"
| "negate NegInf = PosInf"
| "negate (Fin i) = Fin (- i)"
| "negate n = n"

definition stringToNumber :: "string \<Rightarrow> jsnum" where
  "stringToNumber s =
     (case trim s of
        [] \<Rightarrow> Fin 0
      | c # cs \<Rightarrow>
          (if c = CHR ''-''
           then (case unsignedToNumber cs of Some n \<Rightarrow> negate n | None \<Rightarrow> unmodelledNumber s)
           else if c = CHR ''+''
           then (case unsignedToNumber cs of Some n \<Rightarrow> n | None \<Rightarrow> unmodelledNumber s)
           else (case unsignedToNumber (c # cs) of Some n \<Rightarrow> n | None \<Rightarrow> unmodelledNumber s)))"

text \<open>\<^verbatim>\<open>Number(v)\<close>: an object is converted through its text.\<close>

definition toNumber :: "heap \<Rightarrow> jsval \<Rightarrow> jsnum" where
  "toNumber h v =
     (case v of
        Undefined \<Rightarrow> NaN
      | Null \<Rightarrow> Fin 0
      | Bool b \<Rightarrow> Fin (if b then 1 else 0)
      | Num n \<Rightarrow> n
      | Str s \<Rightarrow> stringToNumber s
      | Ref a \<Rightarrow> stringToNumber (toString h v))"

subsection \<open>The save value (lines 30-54)\<close>

text \<open>
  \<^verbatim>\<open>[].concat(v)\<close>: the empty receiver and the result are two new arrays; an array argument is
  spread into the result, any other value becomes its only element.
\<close>

definition concatOntoEmpty :: "heap \<Rightarrow> jsval \<Rightarrow> jsval \<times> heap" where
  "concatOntoEmpty h v =
     (case alloc h (newArray []) of
        (receiver, h1) \<Rightarrow>
          alloc h1 (newArray (case v of
                                Ref a \<Rightarrow> (if isArray h v then elems (h ! a) else [v])
                              | _ \<Rightarrow> [v])))"

definition saveValue :: "heap \<Rightarrow> field \<Rightarrow> jsval \<times> heap" where
  "saveValue h f =
     (let v = get_value f; b = get_originalValue f in
      if strictEq (configProp h f ''strict'') (Bool True) then (v, h)
      else if v = Undefined \<or> v = Null then (Null, h)
      else if b = Undefined \<or> typeof v = typeof b then (v, h)
      else if b \<noteq> Undefined \<and> (v = Undefined \<or> v = Null \<or> isNaN v) then (Null, h)
      else if typeof b = TyString then (Str (toString h v), h)
      else if typeof b = TyBoolean then (Bool (truthy v), h)
      else if typeof b = TyNumber then (Num (toNumber h v), h)
      else if isArray h b then concatOntoEmpty h v
      else (v, h))"

subsection \<open>The default sort\<close>

text \<open>
  \<^verbatim>\<open>xs.sort()\<close> with no comparator: \<^verbatim>\<open>undefined\<close> elements go last, the others are ordered by
  their texts, and the sort is stable (elements with the same text keep their order).
\<close>

definition defaultSort :: "heap \<Rightarrow> jsval list \<Rightarrow> jsval list" where
  "defaultSort h xs =
     sort_key (toString h) (filter (\<lambda>x. x \<noteq> Undefined) xs) @ filter (\<lambda>x. x = Undefined) xs"

text \<open>\<^verbatim>\<open>[...v]\<close>: the elements of an array, the characters of a string, else \<^verbatim>\<open>TypeError\<close>.\<close>

definition spread :: "heap \<Rightarrow> jsval \<Rightarrow> jserror + jsval list" where
  "spread h v =
     (case v of
        Ref a \<Rightarrow> (if isArray h v then Inr (elems (h ! a)) else Inl TypeError)
      | Str s \<Rightarrow> Inr (map (\<lambda>c. Str [c]) s)
      | _ \<Rightarrow> Inl TypeError)"

text \<open>
  \<^verbatim>\<open>JSON.stringify([...v].sort())\<close>. The spread copy is a new array that nothing refers to and
  that is dropped after the call, so it is serialised from its sorted elements without being
  stored.
\<close>

definition stringifySorted :: "heap \<Rightarrow> jsval \<Rightarrow> jserror + jsval" where
  "stringifySorted h v =
     (case spread h v of
        Inl e \<Rightarrow> Inl e
      | Inr xs \<Rightarrow>
          (case those (map (\<lambda>x. jsonT (snapshot h [] x)) (defaultSort h xs)) of
             None \<Rightarrow> Inl TypeError
           | Some ss \<Rightarrow> Inr (Str (''['' @ joinWith '','' ss @ '']''))))"


subsection \<open>Change detection (lines 20-24)\<close>

text \<open>
  The getter returns a boolean or raises what \<^verbatim>\<open>JSON.stringify\<close> raises. An array that
  \<^verbatim>\<open>_saveValue\<close> may have built is dropped with the call, so the store is not returned.
\<close>

definition changed :: "heap \<Rightarrow> field \<Rightarrow> jserror + bool" where
  "changed h f =
     (if isArray h (get_originalValue f) \<and> isArray h (get_value f)
      then (case stringifySorted h (get_originalValue f) of
              Inl e \<Rightarrow> Inl e
            | Inr a \<Rightarrow>
                (case saveValue h f of
                   (sv, h1) \<Rightarrow>
                     (case stringifySorted h1 sv of
                        Inl e \<Rightarrow> Inl e
                      | Inr b \<Rightarrow> Inr (\<not> strictEq a b))))
      else (case saveValue h f of
              (sv, h1) \<Rightarrow>
                if \<not> strictEq (get_originalValue f) sv
                then (case JSON_stringify h1 (get_originalValue f) of
                        Inl e \<Rightarrow> Inl e
                      | Inr a \<Rightarrow>
                          (case JSON_stringify h1 (get_value f) of
                             Inl e \<Rightarrow> Inl e
                           | Inr b \<Rightarrow> Inr (\<not> strictEq a b)))
                else Inr False))"







subsection \<open>Construction and copy (lines 2-18 and 121-125)\<close>

text \<open>
  \<^verbatim>\<open>target[key] = v\<close> in strict-mode code (a class body always is), for a named key: a frozen
  object, a new key on an object that is not extensible, and a primitive target raise
  \<^verbatim>\<open>TypeError\<close>. Keys are names: array indices used as
  property keys are outside the model (arrays are read and written through their element
  list); the one name an array treats specially is \<^verbatim>\<open>length\<close>, which resizes it or raises
  \<^verbatim>\<open>RangeError\<close>.
\<close>

definition setProp :: "heap \<Rightarrow> jsval \<Rightarrow> string \<Rightarrow> jsval \<Rightarrow> heap outcome" where
  "setProp h target key v =
     (case target of
        Ref a \<Rightarrow>
          (if a < length h \<and> \<not> frozen (h ! a)
           then (if cls (h ! a) = Array \<and> key = ''length''
                 then (case toNumber h v of
                         Fin i \<Rightarrow>
                           (if 0 \<le> i \<and> i < 4294967296
                            then Return [] (h[a := (h ! a)\<lparr>elems :=
                                   take (nat i) (elems (h ! a))
                                   @ replicate (nat i - length (elems (h ! a))) Undefined\<rparr>])
                            else Throw [] RangeError)
                       | _ \<Rightarrow> Throw [] RangeError)
                 else if extensible (h ! a) \<or> map_of (props (h ! a)) key \<noteq> None
                 then Return [] (h[a := (h ! a)\<lparr>props := putKey key v (props (h ! a))\<rparr>])
                 else Throw [] TypeError)
           else Throw [] TypeError)
      | _ \<Rightarrow> Throw [] TypeError)"

text \<open>The default \<^verbatim>\<open>config = {}\<close> of the parameter list, taken when the argument is \<^verbatim>\<open>undefined\<close>.\<close>

definition withDefaultConfig :: "heap \<Rightarrow> jsval \<Rightarrow> jsval \<times> heap" where
  "withDefaultConfig h config = (if config = Undefined then alloc h emptyObject else (config, h))"

text \<open>
  Lines 11-12, \<^verbatim>\<open>if (config.strict !== true) config.strict = false;\<close>. Reading a property of
  \<^verbatim>\<open>null\<close> raises \<^verbatim>\<open>TypeError\<close>.
\<close>

definition normalizeStrict :: "heap \<Rightarrow> jsval \<Rightarrow> heap outcome" where
  "normalizeStrict h config =
     (if config = Null then Throw [] TypeError
      else if \<not> strictEq (getProp h config ''strict'') (Bool True)
      then setProp h config ''strict'' (Bool False)
      else Return [] h)"

definition Field_constructor :: "heap \<Rightarrow> jsval \<Rightarrow> jsval \<Rightarrow> jsval \<Rightarrow> (field \<times> heap) outcome" where
  "Field_constructor h0 name val config0 =
     (case withDefaultConfig h0 config0 of
        (config, h) \<Rightarrow>
          if typeof name \<noteq> TyString
          then Throw [] (Error ''UninitializedFieldError''
                 (''The 'name' of a Field was not set to a String. Received: '' @ toString h name))
          else
            andThen (normalizeStrict h config) (\<lambda>h1.
            andThen (set_name h1 blankField name) (\<lambda>f1.
            andThen (set_config h1 f1 config) (\<lambda>f2.
              Return [] (set_originalValue (if val \<noteq> Undefined then set_value f2 val else f2) val, h1)))))"


subsection \<open>Deep freeze (lines 135-164)\<close>

text \<open>
  \<^verbatim>\<open>Object.isFrozen(v)\<close> is \<^verbatim>\<open>true\<close> for every primitive, for a frozen object and for an object
  that is not extensible and has no property (an array always has \<^verbatim>\<open>length\<close>);
  \<^verbatim>\<open>Object.freeze(v)\<close> returns a primitive as it is.
\<close>

definition isFrozen :: "heap \<Rightarrow> jsval \<Rightarrow> bool" where
  "isFrozen h v =
     (case v of
        Ref a \<Rightarrow> a < length h \<and>
                 (frozen (h ! a) \<or>
                  \<not> extensible (h ! a) \<and> cls (h ! a) \<noteq> Array \<and> props (h ! a) = [])
      | _ \<Rightarrow> True)"

definition freeze :: "heap \<Rightarrow> jsval \<Rightarrow> heap" where
  "freeze h v =
     (case v of
        Ref a \<Rightarrow> (if a < length h then h[a := (h ! a)\<lparr>frozen := True, extensible := False\<rparr>] else h)
      | _ \<Rightarrow> h)"

text \<open>\<^verbatim>\<open>Object.entries(v)\<close> of an object, and the elements \<^verbatim>\<open>v.map\<close> visits.\<close>

definition entries :: "heap \<Rightarrow> jsval \<Rightarrow> (string \<times> jsval) list" where
  "entries h v = (case v of Ref a \<Rightarrow> (if a < length h then props (h ! a) else []) | _ \<Rightarrow> [])"

definition elementsOf :: "heap \<Rightarrow> jsval \<Rightarrow> jsval list" where
  "elementsOf h v = (case v of Ref a \<Rightarrow> (if a < length h then elems (h ! a) else []) | _ \<Rightarrow> [])"

text \<open>
  \<^verbatim>\<open>cache\<close> is a plain object used as a set: \<^verbatim>\<open>cache[value]\<close> converts the value to a property
  key, that is to its text. The model keeps the list of keys set to \<^verbatim>\<open>true\<close>. The key
  \<^verbatim>\<open>__proto__\<close> cannot be set this way (the assignment reaches the prototype setter, which
  ignores a boolean).
\<close>

definition cacheAdd :: "string \<Rightarrow> string list \<Rightarrow> string list" where
  "cacheAdd key cache = (if key = ''__proto__'' then cache else key # cache)"

text \<open>
  \<^verbatim>\<open>handleValue\<close> (lines 144-162), with \<^verbatim>\<open>value.map(...)\<close> (line 158) and the \<^verbatim>\<open>reduce\<close> over the
  entries (line 160) as the two loops it calls. The first argument bounds the depth of the
  recursion; \<open>None\<close> means the bound was too small. Every value of the model that passes the
  tests of lines 149-157 is an object, so line 161 is never reached.

  The callback of line 160 is \<^verbatim>\<open>(obj, [key, value]) => obj[key] = handleValue(value)\<close>: it
  returns the value of the assignment, which becomes the accumulator of the next step. The
  target \<^verbatim>\<open>obj\<close> is evaluated before the right-hand side, the write happens after it.
\<close>

fun handleValue :: "nat \<Rightarrow> heap \<Rightarrow> string list \<Rightarrow> jsval \<Rightarrow> (jserror + jsval \<times> heap \<times> string list) option"
  and mapHandle :: "nat \<Rightarrow> heap \<Rightarrow> string list \<Rightarrow> jsval list \<Rightarrow> (jserror + jsval list \<times> heap \<times> string list) option"
  and reduceHandle :: "nat \<Rightarrow> heap \<Rightarrow> string list \<Rightarrow> jsval \<Rightarrow> (string \<times> jsval) list
                        \<Rightarrow> (jserror + jsval \<times> heap \<times> string list) option"
where
  "handleValue 0 h cache v = None"
| "handleValue (Suc n) h cache v =
     (if toString h v \<in> set cache then Some (Inr (v, h, cache))
      else let cache1 = cacheAdd (toString h v) cache in
        if v = Undefined \<or> v = Null \<or> isNaN v then Some (Inr (v, h, cache1))
        else if isFrozen h v then Some (Inr (v, h, cache1))
        else if isRecord h v then Some (Inr (v, h, cache1))
        else if instanceofField h v then Some (Inr (v, h, cache1))
        else if isArray h v
        then (case mapHandle n h cache1 (elementsOf h v) of
                None \<Rightarrow> None
              | Some (Inl e) \<Rightarrow> Some (Inl e)
              | Some (Inr (ys, h1, cache2)) \<Rightarrow>
                  (case alloc h1 (newArray ys) of
                     (r, h2) \<Rightarrow> Some (Inr (r, freeze h2 r, cache2))))
        else (case alloc h emptyObject of
                (acc, h1) \<Rightarrow>
                  (case reduceHandle n h1 cache1 acc (entries h v) of
                     None \<Rightarrow> None
                   | Some (Inl e) \<Rightarrow> Some (Inl e)
                   | Some (Inr (r, h2, cache2)) \<Rightarrow> Some (Inr (r, freeze h2 r, cache2)))))"
| "mapHandle n h cache [] = Some (Inr ([], h, cache))"
| "mapHandle n h cache (x # xs) =
     (case handleValue n h cache x of
        None \<Rightarrow> None
      | Some (Inl e) \<Rightarrow> Some (Inl e)
      | Some (Inr (y, h1, cache1)) \<Rightarrow>
          (case mapHandle n h1 cache1 xs of
             None \<Rightarrow> None
           | Some (Inl e) \<Rightarrow> Some (Inl e)
           | Some (Inr (ys, h2, cache2)) \<Rightarrow> Some (Inr (y # ys, h2, cache2))))"
| "reduceHandle n h cache acc [] = Some (Inr (acc, h, cache))"
| "reduceHandle n h cache acc (kv # kvs) =
     (case handleValue n h cache (snd kv) of
        None \<Rightarrow> None
      | Some (Inl e) \<Rightarrow> Some (Inl e)
      | Some (Inr (y, h1, cache1)) \<Rightarrow>
          (case setProp h1 acc (fst kv) y of
             Return l h2 \<Rightarrow> reduceHandle n h2 cache1 y kvs
           | Throw l e \<Rightarrow> Some (Inl e)
           | Exit l c \<Rightarrow> None))"

text \<open>\<^verbatim>\<open>_deepFreezeValue(value)\<close>: a fresh cache, then \<^verbatim>\<open>handleValue(value)\<close>.\<close>

definition deepFreezeValue :: "nat \<Rightarrow> heap \<Rightarrow> jsval \<Rightarrow> (jserror + jsval \<times> heap) option" where
  "deepFreezeValue fuel h v =
     (case handleValue fuel h [] v of
        None \<Rightarrow> None
      | Some (Inl e) \<Rightarrow> Some (Inl e)
      | Some (Inr (r, h1, cache)) \<Rightarrow> Some (Inr (r, h1)))"

text \<open>
  What the result of a deep freeze is expected to be: frozen at every level. A primitive
  is; an object is when it is frozen itself and all it holds is (references are followed
  to the given depth).
\<close>

fun deeplyFrozen :: "nat \<Rightarrow> heap \<Rightarrow> jsval \<Rightarrow> bool" where
  "deeplyFrozen 0 h v = (case v of Ref a \<Rightarrow> False | _ \<Rightarrow> True)"
| "deeplyFrozen (Suc n) h v =
     (case v of
        Ref a \<Rightarrow> a < length h \<and> frozen (h ! a)
                 \<and> list_all (deeplyFrozen n h) (elems (h ! a))
                 \<and> list_all (\<lambda>kv. deeplyFrozen n h (snd kv)) (props (h ! a))
      | _ \<Rightarrow> True)"


text \<open>
  The state every constructed field is in, as long as its config object is not frozen
  afterwards: a non-empty name, and a config object whose \<^verbatim>\<open>strict\<close> is \<^verbatim>\<open>true\<close> or \<^verbatim>\<open>false\<close>.
\<close>

definition constructed :: "heap \<Rightarrow> field \<Rightarrow> bool" where
  "constructed h f =
     (case (name_slot f, config_slot f) of
        (Str s, Ref a) \<Rightarrow>
           s \<noteq> [] \<and> a < length h \<and> cls (h ! a) \<noteq> Array \<and>
           (getProp h (Ref a) ''strict'' = Bool True \<or>
            getProp h (Ref a) ''strict'' = Bool False \<and> \<not> frozen (h ! a))
      | _ \<Rightarrow> False)"

section \<open>Concrete stores and fields used as inputs\<close>


definition quietConfig :: jsobj where
  "quietConfig = \<lparr>cls = Object, elems = [],
                   props = [(''strict'', Bool False), (''__ignoreFieldErrors__'', Bool True)],
                   frozen = False, extensible = True\<rparr>"

text \<open>A field as \<^verbatim>\<open>new Field('Name', v)\<close> leaves it, its config stored at address 0.\<close>

definition fieldOf :: "jsval \<Rightarrow> field" where
  "fieldOf v = \<lparr>name_slot = Str ''Name'', config_slot = Ref 0, type_slot = Undefined,
                 value_slot = v, originalValue_slot = v\<rparr>"







text \<open>Inputs of the deep freeze: \<^verbatim>\<open>{a: 1}\<close>, \<^verbatim>\<open>{a: 1, b: 2}\<close>, \<^verbatim>\<open>{a: {x: 1}, b: 2}\<close> and \<^verbatim>\<open>[[1], [1]]\<close>.\<close>

definition objA1 :: heap where
  "objA1 = [\<lparr>cls = Object, elems = [], props = [(''a'', Num (Fin 1))], frozen = False, extensible = True\<rparr>]"

definition objA1B2 :: heap where
  "objA1B2 = [\<lparr>cls = Object, elems = [],
               props = [(''a'', Num (Fin 1)), (''b'', Num (Fin 2))], frozen = False, extensible = True\<rparr>]"

definition objNested :: heap where
  "objNested = [\<lparr>cls = Object, elems = [], props = [(''a'', Ref 1), (''b'', Num (Fin 2))], frozen = False, extensible = True\<rparr>,
                \<lparr>cls = Object, elems = [], props = [(''x'', Num (Fin 1))], frozen = False, extensible = True\<rparr>]"

definition arrTwins :: heap where
  "arrTwins = [newArray [Ref 1, Ref 2], newArray [Num (Fin 1)], newArray [Num (Fin 1)]]"




section \<open>Claims\<close>

lemmas configProp_simps = configProp_def get_config_def getProp_def alloc_def

lemmas report_simps = reportRaises_def constructorRaises_def renderRaises_def textRaises_def
  isRecord_def instanceofField_def JSON_stringify_def reportContext_def get_record_def get_name_def
  configProp_simps

subsection \<open>Plain data\<close>









subsection \<open>Error channel and accessors\<close>




text \<open>
  C5 (as amended). Reading \<^verbatim>\<open>value\<close> returns the stored value unchanged when it is truthy or
  is the literal \<^verbatim>\<open>0\<close> or \<^verbatim>\<open>false\<close>; every other falsy stored value, the unset value
  included (and \<^verbatim>\<open>null\<close>, \<^verbatim>\<open>NaN\<close>, the empty string), reads as the explicit-empty marker \<^verbatim>\<open>null\<close>.
\<close>

theorem C5_value_getter:
  "get_value f =
     (if value_slot f = Undefined \<or> value_slot f = Null \<or> value_slot f = Num NaN
         \<or> value_slot f = Str []
      then Null else value_slot f)"
proof (cases "value_slot f")
  case (Num n)
  then show ?thesis by (cases n) (simp_all add: get_value_def strictEq_def)
qed (simp_all add: get_value_def strictEq_def)

theorem C5_value_getter_witness:
  "get_value (fieldOf (Num (Fin 0))) = Num (Fin 0) \<and> get_value (fieldOf (Bool False)) = Bool False
   \<and> get_value (fieldOf (Str ''x'')) = Str ''x'' \<and> get_value (fieldOf (Str [])) = Null
   \<and> get_value (fieldOf (Num NaN)) = Null"
  using C5_value_getter [of "fieldOf (Num (Fin 0))"] C5_value_getter [of "fieldOf (Bool False)"]
        C5_value_getter [of "fieldOf (Str ''x'')"] C5_value_getter [of "fieldOf (Str [])"]
        C5_value_getter [of "fieldOf (Num NaN)"]
  by (simp add: fieldOf_def)

text \<open>
  C5, the claim as stated, fails: an unset stored value is not preserved, it reads as \<^verbatim>\<open>null\<close>.
\<close>

theorem C5_unset_reads_null:
  "value_slot blankField = Undefined \<and> get_value blankField = Null \<and> get_value blankField \<noteq> Undefined"
  by (simp add: get_value_def blankField_def strictEq_def)

text \<open>
  C7. Once \<^verbatim>\<open>config\<close> (respectively \<^verbatim>\<open>type\<close>) is set, an assignment to it is the call of the error
  channel with the field left as it was: the setter's outcome is that of \<^verbatim>\<open>_error\<close>, and if it
  returns at all, the field is unchanged and the error has been logged.
\<close>

theorem C7_write_once:
  "(config_slot f \<noteq> Undefined \<longrightarrow>
      set_config h f c = returning f (Field_error h f ''config can not be changed!'' Undefined (Bool False))
      \<and> (\<forall>l f'. set_config h f c = Return l f' \<longrightarrow> f' = f \<and> l \<noteq> []))
   \<and> (get_type f \<noteq> Undefined \<longrightarrow>
      set_type h f t = returning f (Field_error h f ''type can not be changed!'' t (Bool False))
      \<and> (\<forall>l f'. set_type h f t = Return l f' \<longrightarrow> f' = f \<and> l \<noteq> []))"
  by (auto simp: set_config_def set_type_def Field_error_def Let_def)

theorem C7_write_once_witness:
  "config_slot ((fieldOf Null)\<lparr>type_slot := Str ''text''\<rparr>) \<noteq> Undefined
   \<and> get_type ((fieldOf Null)\<lparr>type_slot := Str ''text''\<rparr>) \<noteq> Undefined
   \<and> set_config [quietConfig, emptyObject] ((fieldOf Null)\<lparr>type_slot := Str ''text''\<rparr>) (Ref 1)
     = Return [ErrorStack (Error ''FieldError'' ''config can not be changed!'')]
         ((fieldOf Null)\<lparr>type_slot := Str ''text''\<rparr>)
   \<and> set_type [quietConfig, emptyObject] ((fieldOf Null)\<lparr>type_slot := Str ''text''\<rparr>) (Str ''number'')
     = Return [ErrorStack (Error ''FieldError'' ''type can not be changed!'')]
         ((fieldOf Null)\<lparr>type_slot := Str ''text''\<rparr>)"
  using C7_write_once [of "(fieldOf Null)\<lparr>type_slot := Str ''text''\<rparr>" "[quietConfig, emptyObject]"
                          "Ref 1" "Str ''number''"]
  by (simp add: Field_error_def Let_def get_type_def fieldOf_def configProp_simps quietConfig_def
      strictEq_def report_simps)

subsection \<open>Save value\<close>





subsection \<open>Construction and copy\<close>


lemma map_of_putKey: "map_of (putKey k v ps) k' = (if k' = k then Some v else map_of ps k')"
  by (induction ps) auto


text \<open>
  What a construction that returns has done: every step returned, the name is a non-empty
  string, and the field is in the state \<open>constructed\<close>.
\<close>

lemma andThen_Return:
  "andThen m k = Return l x \<Longrightarrow> \<exists>l1 y l2. m = Return l1 y \<and> k y = Return l2 x \<and> l = l1 @ l2"
  by (cases m; cases "k (case m of Return l y \<Rightarrow> y)") auto

lemma set_name_Return:
  "set_name h f n = Return l f' \<Longrightarrow> type_slot f = Undefined \<Longrightarrow>
   l = [] \<and> f' = f\<lparr>name_slot := n\<rparr> \<and> (\<exists>s. n = Str s \<and> s \<noteq> [])"
  by (cases n) (auto simp: set_name_def checkName_def Field_error_def Let_def get_type_def split: if_splits)

lemma set_config_Return:
  "set_config h f c = Return l f' \<Longrightarrow> type_slot f = Undefined \<Longrightarrow>
   l = [] \<and> f' = f\<lparr>config_slot := c\<rparr> \<and> typeof c = TyObject \<and> \<not> isArray h c"
  by (auto simp: set_config_def Field_error_def Let_def get_type_def split: if_splits)

lemma normalizeStrict_Return:
  assumes "normalizeStrict h c = Return l h'" and "typeof c = TyObject"
  shows "l = [] \<and> (\<exists>a. c = Ref a \<and> a < length h' \<and> length h' = length h \<and> cls (h' ! a) = cls (h ! a) \<and>
           (getProp h' (Ref a) ''strict'' = Bool True \<or>
            getProp h' (Ref a) ''strict'' = Bool False \<and> \<not> frozen (h' ! a)))"
proof (cases c)
  case (Ref a)
  show ?thesis
  proof (cases "strictEq (getProp h c ''strict'') (Bool True)")
    case True
    with assms Ref show ?thesis
      by (auto simp: normalizeStrict_def strictEq_def getProp_def split: if_splits)
  next
    case False
    with assms Ref show ?thesis
      by (auto simp: normalizeStrict_def setProp_def getProp_def map_of_putKey split: if_splits)
  qed
qed (use assms in \<open>auto simp: normalizeStrict_def setProp_def\<close>)

lemma constructor_constructed:
  assumes "Field_constructor h0 name v c = Return l (f, h)"
  shows "constructed h f"
proof -
  obtain config h1 where w: "withDefaultConfig h0 c = (config, h1)" by (cases "withDefaultConfig h0 c")
  from assms w have str: "typeof name = TyString"
    by (auto simp: Field_constructor_def split: if_splits)
  from assms w str obtain l1 l3 f1 l5 f2 where
    ns: "normalizeStrict h1 config = Return l1 h"
    and f1: "set_name h blankField name = Return l3 f1"
    and f2: "set_config h f1 config = Return l5 f2"
    and r: "f = set_originalValue (if v \<noteq> Undefined then set_value f2 v else f2) v"
    by (auto simp: Field_constructor_def dest!: andThen_Return)
  from set_name_Return [OF f1] obtain s where n: "f1 = blankField\<lparr>name_slot := Str s\<rparr>" "s \<noteq> []"
    by (auto simp: blankField_def)
  from set_config_Return [OF f2] n have c: "f2 = f1\<lparr>config_slot := config\<rparr>" "typeof config = TyObject"
      "\<not> isArray h config"
    by (auto simp: blankField_def)
  from normalizeStrict_Return [OF ns c(2)] obtain a where a: "config = Ref a" "a < length h"
      "getProp h (Ref a) ''strict'' = Bool True \<or>
            getProp h (Ref a) ''strict'' = Bool False \<and> \<not> frozen (h ! a)"
    by auto
  from c(3) a have "cls (h ! a) \<noteq> Array" by (simp add: isArray_def)
  with r n c a show ?thesis
    by (simp add: constructed_def set_originalValue_def set_value_def)
qed











subsection \<open>Change detection\<close>





































subsection \<open>Deep freeze\<close>

text \<open>
  C4. The claim (a structurally equal, deeply frozen result, the input left alone) is what
  the comment above \<^verbatim>\<open>_deepFreezeValue\<close> announces (\<^verbatim>\<open>creates a copy of the value and freezes it\<close>),
  and the code does not deliver it. With recursion depth 3, which is enough for each input:
  \<^item> \<^verbatim>\<open>{a: 1}\<close> gives the number \<^verbatim>\<open>1\<close>: the \<^verbatim>\<open>reduce\<close> callback returns the assigned value, not the
    accumulator (the store gains the accumulator object, which is dropped);
  \<^item> \<^verbatim>\<open>{a: 1, b: 2}\<close> raises \<^verbatim>\<open>TypeError\<close>: the second step assigns a property on the number \<^verbatim>\<open>1\<close>;
  \<^item> \<^verbatim>\<open>{a: {x: 1}, b: 2}\<close> gives \<^verbatim>\<open>2\<close> and writes \<^verbatim>\<open>b = 2\<close> into the input's own inner object: the
    cache is keyed by the value's text, \<^verbatim>\<open>[object Object]\<close> for both objects, so the inner one
    is returned as it is and becomes the accumulator;
  \<^item> \<^verbatim>\<open>[[1], [1]]\<close> gives a frozen array whose second element is the input's own second array,
    not frozen: both inner arrays have the text \<^verbatim>\<open>1\<close>.
\<close>

theorem C4_deep_freeze_diverges:
  "deepFreezeValue 3 objA1 (Ref 0) = Some (Inr (Num (Fin 1), objA1 @ objA1))
   \<and> deepFreezeValue 3 objA1B2 (Ref 0) = Some (Inl TypeError)
   \<and> (case deepFreezeValue 3 objNested (Ref 0) of
         Some (Inr (r, h)) \<Rightarrow> r = Num (Fin 2) \<and> getProp objNested (Ref 1) ''b'' = Undefined
                               \<and> getProp h (Ref 1) ''b'' = Num (Fin 2)
       | _ \<Rightarrow> False)
   \<and> (case deepFreezeValue 3 arrTwins (Ref 0) of
         Some (Inr (r, h)) \<Rightarrow> elementsOf h r = [Ref 3, Ref 2] \<and> \<not> isFrozen h (Ref 2)
                               \<and> \<not> deeplyFrozen 3 h r
       | _ \<Rightarrow> False)"
  by code_simp

end
